theory Spec2Isabelle
  imports Main "HOL-Library.Word"
begin

section \<open>JavaScript strings\<close>

text \<open>
  A JavaScript string is a sequence of UTF-16 code units and \<open>s.length\<close> counts code
  units. String literals of the source are ASCII; \<open>js_lit\<close> embeds them.
\<close>

type_synonym code_unit = "16 word"
type_synonym js_string = "code_unit list"

definition js_lit :: "string \<Rightarrow> js_string" where
  "js_lit s = map (\<lambda>c. of_nat (of_char c)) s"

text \<open>
  Truthiness of a value of type \<open>string | null | undefined\<close>: \<open>None\<close> stands for
  \<open>null\<close> and \<open>undefined\<close> (both falsy), and the empty string is falsy too.
\<close>

definition truthy :: "js_string option \<Rightarrow> bool" where
  "truthy v = (case v of None \<Rightarrow> False | Some s \<Rightarrow> s \<noteq> [])"

text \<open>The operator \<open>a || b\<close> on such values.\<close>

definition or_else :: "js_string option \<Rightarrow> js_string option \<Rightarrow> js_string option" where
  "or_else a b = (if truthy a then a else b)"

section \<open>Data model (types/dashboard.ts, types/ai.ts, types/contribution.ts)\<close>

datatype IssueStatus = available | claimed | completed | closed

text \<open>Interface \<open>Issue\<close>; its field \<open>id\<close> is written \<open>id'\<close> here.\<close>

record Issue =
  id' :: int
  github_issue_id :: int
  repository_id :: int
  title :: js_string
  description :: "js_string option"
  labels :: "js_string list"
  programming_language :: "js_string option"
  difficulty_level :: "js_string option"
  ai_explanation :: "js_string option"
  status :: IssueStatus
  claimed_by :: "int option"
  claimed_at :: "js_string option"
  claim_expires_at :: "js_string option"
  github_url :: js_string
  created_at :: js_string
  updated_at :: js_string
  repository_name :: "js_string option"
  repository_full_name :: "js_string option"

text \<open>
  Interfaces \<open>ReleaseResult\<close>, \<open>ClaimResult\<close> and \<open>ExtensionResult\<close> of types/ai.ts.
  All three start with \<open>success\<close>, \<open>message\<close> and the optional \<open>issue_id\<close>; the other
  two add their own optional fields. The fields \<open>claimed_at\<close> and \<open>claim_expires_at\<close>
  of \<open>ClaimResult\<close> are prefixed with \<open>result_\<close>, since \<open>Issue\<close> has fields of the
  same names.
\<close>

record ReleaseResult =
  success :: bool
  message :: js_string
  issue_id :: "int option"

record ClaimResult = ReleaseResult +
  result_claimed_at :: "js_string option"
  result_claim_expires_at :: "js_string option"

record ExtensionResult = ReleaseResult +
  new_expiration :: "js_string option"

text \<open>Interface \<open>SubmissionResult\<close> of types/contribution.ts.\<close>

record SubmissionResult =
  submission_success :: bool
  submission_message :: js_string
  contribution_id :: "int option"
  pr_number :: "int option"
  submission_status :: "js_string option"
  points_earned :: "int option"

section \<open>The component IssueDetailClient\<close>

text \<open>The props the handlers read, and the state held by the \<open>useState\<close> hooks.\<close>

record Props =
  accessToken :: js_string
  currentUserId :: int

record State =
  issue :: Issue
  isLoading :: bool
  error :: "js_string option"
  showExtendModal :: bool
  extensionDays :: int
  justification :: js_string
  showPRForm :: bool
  celebrationResult :: "SubmissionResult option"
  hasSubmittedPR :: bool

definition initial_state :: "Issue \<Rightarrow> State" where
  "initial_state initialIssue =
     \<lparr>issue = initialIssue, isLoading = False, error = None, showExtendModal = False,
      extensionDays = 7, justification = [], showPRForm = False,
      celebrationResult = None, hasSubmittedPR = (status initialIssue = completed)\<rparr>"

text \<open>
  An awaited API call either resolves with a result or rejects with a thrown value; the
  handlers tell an \<open>Error\<close> object (with its message) from any other thrown value.
\<close>

datatype thrown = ErrorObject js_string | OtherValue

datatype 'a settled = Resolved 'a | Rejected thrown

text \<open>What a handler does to the outside world, in order.\<close>

datatype effect =
    Call_claimIssue int int js_string
  | Call_releaseIssue int int js_string
  | Call_extendClaimDeadline int int int js_string js_string
  | Call_confirm js_string
  | Call_window_open js_string js_string

definition error_message :: "thrown \<Rightarrow> string \<Rightarrow> js_string" where
  "error_message err fallback =
     (case err of ErrorObject m \<Rightarrow> m | OtherValue \<Rightarrow> js_lit fallback)"

text \<open>
  The three handlers that call the API are \<open>async\<close>: each runs up to its \<open>await\<close>
  when the control is clicked, and the rest runs when the call settles. In between the
  component takes other events. What the rest of a handler reads after the \<open>await\<close>
  is the closure of the render in which the control was clicked; of the state it reads
  \<open>issue\<close> only, in \<open>setIssue({...issue, ...})\<close>. So every handler is given in two
  parts: \<open>_clicked\<close>, up to the \<open>await\<close>, and \<open>_settled\<close>, which takes that \<open>issue\<close>
  as \<open>issue_at_click\<close> and works on the state the component has when the call settles.
  The API functions of lib/issues-api are parameters, and so is the value of
  \<open>new Date().toISOString()\<close>.
\<close>

definition handleClaim_clicked :: "Props \<Rightarrow> State \<Rightarrow> State \<times> effect list" where
  "handleClaim_clicked props st =
     (st\<lparr>isLoading := True, error := None\<rparr>,
      [Call_claimIssue (id' (issue st)) (currentUserId props) (accessToken props)])"

definition handleClaim_settled ::
  "js_string \<Rightarrow> Props \<Rightarrow> Issue \<Rightarrow> ClaimResult settled \<Rightarrow> State \<Rightarrow> State \<times> effect list" where
  "handleClaim_settled nowISO props issue_at_click outcome st =
     (let (st', effects) =
            (case outcome of
               Resolved result \<Rightarrow>
                 if success result then
                   (st\<lparr>issue := issue_at_click
                       \<lparr>status := claimed,
                        claimed_by := Some (currentUserId props),
                        claimed_at := or_else (result_claimed_at result) (Some nowISO),
                        claim_expires_at := or_else (result_claim_expires_at result) None\<rparr>\<rparr>,
                    [Call_window_open (github_url issue_at_click) (js_lit ''_blank'')])
                 else (st, [])
             | Rejected err \<Rightarrow>
                 (st\<lparr>error := Some (error_message err ''Failed to claim issue'')\<rparr>, []))
      in (st'\<lparr>isLoading := False\<rparr>, effects))"

text \<open>\<open>handleClaim\<close> when nothing happens between the click and the answer.\<close>

definition handleClaim ::
  "(int \<Rightarrow> int \<Rightarrow> js_string \<Rightarrow> ClaimResult settled) \<Rightarrow> js_string \<Rightarrow> Props \<Rightarrow> State
     \<Rightarrow> State \<times> effect list" where
  "handleClaim claimIssue nowISO props st =
     (let (st1, calls) = handleClaim_clicked props st;
          (st2, effects) =
            handleClaim_settled nowISO props (issue st)
              (claimIssue (id' (issue st)) (currentUserId props) (accessToken props)) st1
      in (st2, calls @ effects))"

text \<open>
  \<open>handleRelease\<close>. When the user declines the \<open>confirm\<close> dialog the handler returns
  at once; \<open>handleRelease_clicked\<close> is the other case, up to the \<open>await\<close>.
\<close>

definition release_prompt :: js_string where
  "release_prompt = js_lit
     ''Are you sure you want to release this issue? It will become available for others to claim.''"

definition handleRelease_clicked :: "Props \<Rightarrow> State \<Rightarrow> State \<times> effect list" where
  "handleRelease_clicked props st =
     (st\<lparr>isLoading := True, error := None\<rparr>,
      [Call_confirm release_prompt,
       Call_releaseIssue (id' (issue st)) (currentUserId props) (accessToken props)])"

definition handleRelease_settled :: "Issue \<Rightarrow> ReleaseResult settled \<Rightarrow> State \<Rightarrow> State" where
  "handleRelease_settled issue_at_click outcome st =
     (case outcome of
        Resolved result \<Rightarrow>
          if success result then
            st\<lparr>issue := issue_at_click
                \<lparr>status := available,
                 claimed_by := None,
                 claimed_at := None,
                 claim_expires_at := None\<rparr>\<rparr>
          else st
      | Rejected err \<Rightarrow>
          st\<lparr>error := Some (error_message err ''Failed to release issue'')\<rparr>)
     \<lparr>isLoading := False\<rparr>"

text \<open>
  \<open>handleRelease\<close> when nothing happens between the click and the answer; \<open>confirmed\<close>
  is the answer of the \<open>confirm\<close> dialog.
\<close>

definition handleRelease ::
  "bool \<Rightarrow> (int \<Rightarrow> int \<Rightarrow> js_string \<Rightarrow> ReleaseResult settled) \<Rightarrow> Props \<Rightarrow> State
     \<Rightarrow> State \<times> effect list" where
  "handleRelease confirmed releaseIssue props st =
     (if \<not> confirmed then (st, [Call_confirm release_prompt])
      else
        let (st1, calls) = handleRelease_clicked props st
        in (handleRelease_settled (issue st)
              (releaseIssue (id' (issue st)) (currentUserId props) (accessToken props)) st1,
            calls))"

text \<open>
  \<open>handleExtend\<close>. With a justification of fewer than 10 code units the handler
  returns before any call; \<open>handleExtend_clicked\<close> is the other case, up to the
  \<open>await\<close>.
\<close>

definition justification_error :: js_string where
  "justification_error = js_lit ''Please provide a justification (at least 10 characters)''"

definition handleExtend_clicked :: "Props \<Rightarrow> State \<Rightarrow> State \<times> effect list" where
  "handleExtend_clicked props st =
     (st\<lparr>isLoading := True, error := None\<rparr>,
      [Call_extendClaimDeadline (id' (issue st)) (currentUserId props) (extensionDays st)
         (justification st) (accessToken props)])"

definition handleExtend_settled :: "Issue \<Rightarrow> ExtensionResult settled \<Rightarrow> State \<Rightarrow> State" where
  "handleExtend_settled issue_at_click outcome st =
     (case outcome of
        Resolved result \<Rightarrow>
          if success result then
            st\<lparr>issue := issue_at_click
                \<lparr>claim_expires_at :=
                   or_else (new_expiration result) (claim_expires_at issue_at_click)\<rparr>,
               showExtendModal := False,
               justification := []\<rparr>
          else st
      | Rejected err \<Rightarrow>
          st\<lparr>error := Some (error_message err ''Failed to extend deadline'')\<rparr>)
     \<lparr>isLoading := False\<rparr>"

text \<open>\<open>handleExtend\<close> when nothing happens between the click and the answer.\<close>

definition handleExtend ::
  "(int \<Rightarrow> int \<Rightarrow> int \<Rightarrow> js_string \<Rightarrow> js_string \<Rightarrow> ExtensionResult settled) \<Rightarrow> Props \<Rightarrow> State
     \<Rightarrow> State \<times> effect list" where
  "handleExtend extendClaimDeadline props st =
     (if length (justification st) < 10 then (st\<lparr>error := Some justification_error\<rparr>, [])
      else
        let (st1, calls) = handleExtend_clicked props st
        in (handleExtend_settled (issue st)
              (extendClaimDeadline (id' (issue st)) (currentUserId props) (extensionDays st)
                 (justification st) (accessToken props)) st1,
            calls))"

text \<open>
  \<open>handlePRSuccess\<close>, the \<open>onSuccess\<close> callback of the pull-request form. The form
  calls it after its own \<open>await\<close> (PRSubmissionForm, \<open>handleSubmit\<close>), so it too writes
  the \<open>issue\<close> of the render in which the form was submitted.
\<close>

definition handlePRSuccess :: "Issue \<Rightarrow> SubmissionResult \<Rightarrow> State \<Rightarrow> State" where
  "handlePRSuccess issue_at_submit result st =
     st\<lparr>issue := issue_at_submit\<lparr>status := completed\<rparr>,
        showPRForm := False,
        celebrationResult := Some result,
        hasSubmittedPR := True\<rparr>"

text \<open>
  The extension-days input: \<open>onChange={(e) => setExtensionDays(parseInt(e.target.value) || 1)}\<close>.
  \<open>parseInt\<close> is the language's own function, modelled after ECMAScript: leading white
  space is skipped, then an optional sign, then an optional \<open>0x\<close>/\<open>0X\<close> prefix (which
  selects radix 16), then the longest run of digits of the radix; with no digit the
  result is \<open>NaN\<close> (\<open>None\<close>). The result is kept as a mathematical integer: the engine
  rounds values beyond 2^53 to a double, which changes neither the sign nor whether the
  value is zero, and \<open>-0\<close> is \<open>0\<close> here (both are falsy).
\<close>

definition is_white_space :: "code_unit \<Rightarrow> bool" where
  "is_white_space u \<longleftrightarrow>
     u \<in> {0x9, 0xA, 0xB, 0xC, 0xD, 0x20, 0xA0, 0x1680, 0x2028, 0x2029, 0x202F, 0x205F,
          0x3000, 0xFEFF}
     \<or> (0x2000 \<le> u \<and> u \<le> 0x200A)"

definition digit_value :: "code_unit \<Rightarrow> nat option" where
  "digit_value u =
     (if 0x30 \<le> u \<and> u \<le> 0x39 then Some (unat u - 0x30)
      else if 0x61 \<le> u \<and> u \<le> 0x7A then Some (unat u - 0x61 + 10)
      else if 0x41 \<le> u \<and> u \<le> 0x5A then Some (unat u - 0x41 + 10)
      else None)"

fun radix_digits :: "nat \<Rightarrow> js_string \<Rightarrow> nat list" where
  "radix_digits R [] = []"
| "radix_digits R (u # us) =
     (case digit_value u of
        None \<Rightarrow> []
      | Some d \<Rightarrow> if d < R then d # radix_digits R us else [])"

definition parseInt :: "js_string \<Rightarrow> int option" where
  "parseInt inputString =
     (let s = dropWhile is_white_space inputString;
          (sign, s) =
            (case s of
               [] \<Rightarrow> (1, s)
             | u # rest \<Rightarrow>
                 if u = 0x2D then (- 1, rest) else if u = 0x2B then (1, rest) else (1, s));
          (R, s) =
            (case s of
               a # b # rest \<Rightarrow>
                 if a = 0x30 \<and> (b = 0x78 \<or> b = 0x58) then (16, rest) else (10, s)
             | _ \<Rightarrow> (10, s));
          Z = radix_digits R s
      in if Z = [] then None
         else Some (sign * int (foldl (\<lambda>acc d. acc * R + d) 0 Z)))"

text \<open>\<open>n || 1\<close> for a number \<open>n\<close>: \<open>NaN\<close> and \<open>0\<close> are the falsy numbers.\<close>

definition or_one :: "int option \<Rightarrow> int" where
  "or_one n = (case n of None \<Rightarrow> 1 | Some k \<Rightarrow> if k = 0 then 1 else k)"

definition extensionDays_onChange :: "js_string \<Rightarrow> State \<Rightarrow> State" where
  "extensionDays_onChange target_value st = st\<lparr>extensionDays := or_one (parseInt target_value)\<rparr>"

text \<open>The conditions under which the JSX renders and enables the controls.\<close>

definition isClaimedByCurrentUser :: "Props \<Rightarrow> State \<Rightarrow> bool" where
  "isClaimedByCurrentUser props st \<longleftrightarrow> claimed_by (issue st) = Some (currentUserId props)"

definition extend_button_disabled :: "State \<Rightarrow> bool" where
  "extend_button_disabled st \<longleftrightarrow> isLoading st \<or> length (justification st) < 10"

text \<open>
  A call that has been made and has not settled yet, with the \<open>issue\<close> its handler
  will write back.
\<close>

datatype pending =
    Claim_pending Issue
  | Release_pending Issue
  | Extend_pending Issue
  | PR_pending Issue


text \<open>
  Whether an answer is one of those the API may give, when \<open>ok\<close> says which successful
  results it may give: every rejection and every result without success is.
\<close>

definition admitted ::
  "('a ReleaseResult_scheme \<Rightarrow> bool) \<Rightarrow> 'a ReleaseResult_scheme settled \<Rightarrow> bool" where
  "admitted ok outcome =
     (case outcome of
        Resolved result \<Rightarrow> (if success result then ok result else True)
      | Rejected err \<Rightarrow> True)"

text \<open>
  The runs of the mounted component. A configuration is the state with the calls that
  are pending. Every rule is one event: a control of the JSX, with the condition under
  which it is rendered and enabled, or the settling of a pending call, in any order.
  \<open>claim_ok\<close> and \<open>extend_ok\<close> say which successful answers the API may give (to a
  claim; to an extend, given the issue the handler saw at the click). The pull-request form calls
  \<open>onSuccess\<close> only with a successful result. A form that is submitting cannot be
  submitted again, but Submit Pull Request pressed twice mounts a fresh form over the
  same state, so a submit is allowed whenever the form is shown.
\<close>

inductive reach ::
  "(ClaimResult \<Rightarrow> bool) \<Rightarrow> (Issue \<Rightarrow> ExtensionResult \<Rightarrow> bool) \<Rightarrow> Props \<Rightarrow> Issue
     \<Rightarrow> State \<times> pending list \<Rightarrow> bool"
  for claim_ok :: "ClaimResult \<Rightarrow> bool" and extend_ok :: "Issue \<Rightarrow> ExtensionResult \<Rightarrow> bool"
    and props :: Props and initialIssue :: Issue where
  mount: "reach claim_ok extend_ok props initialIssue (initial_state initialIssue, [])"
| solve_it:
    "reach claim_ok extend_ok props initialIssue (st, calls) \<Longrightarrow> status (issue st) = available
     \<Longrightarrow> \<not> isLoading st
     \<Longrightarrow> reach claim_ok extend_ok props initialIssue
           (fst (handleClaim_clicked props st), Claim_pending (issue st) # calls)"
| claim_settled:
    "reach claim_ok extend_ok props initialIssue (st, calls) \<Longrightarrow> Claim_pending i \<in> set calls
     \<Longrightarrow> admitted claim_ok outcome
     \<Longrightarrow> reach claim_ok extend_ok props initialIssue
           (fst (handleClaim_settled nowISO props i outcome st), remove1 (Claim_pending i) calls)"
| toggle_pr_form:
    "reach claim_ok extend_ok props initialIssue (st, calls) \<Longrightarrow> isClaimedByCurrentUser props st
     \<Longrightarrow> \<not> hasSubmittedPR st
     \<Longrightarrow> reach claim_ok extend_ok props initialIssue (st\<lparr>showPRForm := \<not> showPRForm st\<rparr>, calls)"
| release_issue:
    "reach claim_ok extend_ok props initialIssue (st, calls) \<Longrightarrow> isClaimedByCurrentUser props st
     \<Longrightarrow> \<not> hasSubmittedPR st \<Longrightarrow> \<not> isLoading st
     \<Longrightarrow> reach claim_ok extend_ok props initialIssue
           (fst (handleRelease_clicked props st), Release_pending (issue st) # calls)"
| release_settled:
    "reach claim_ok extend_ok props initialIssue (st, calls) \<Longrightarrow> Release_pending i \<in> set calls
     \<Longrightarrow> reach claim_ok extend_ok props initialIssue
           (handleRelease_settled i outcome st, remove1 (Release_pending i) calls)"
| extend_deadline:
    "reach claim_ok extend_ok props initialIssue (st, calls) \<Longrightarrow> isClaimedByCurrentUser props st
     \<Longrightarrow> \<not> hasSubmittedPR st \<Longrightarrow> \<not> isLoading st
     \<Longrightarrow> reach claim_ok extend_ok props initialIssue (st\<lparr>showExtendModal := True\<rparr>, calls)"
| pr_submit:
    "reach claim_ok extend_ok props initialIssue (st, calls) \<Longrightarrow> showPRForm st
     \<Longrightarrow> isClaimedByCurrentUser props st \<Longrightarrow> \<not> hasSubmittedPR st
     \<Longrightarrow> reach claim_ok extend_ok props initialIssue (st, PR_pending (issue st) # calls)"
| pr_success:
    "reach claim_ok extend_ok props initialIssue (st, calls) \<Longrightarrow> PR_pending i \<in> set calls
     \<Longrightarrow> submission_success result
     \<Longrightarrow> reach claim_ok extend_ok props initialIssue
           (handlePRSuccess i result st, remove1 (PR_pending i) calls)"
| pr_cancel:
    "reach claim_ok extend_ok props initialIssue (st, calls) \<Longrightarrow> showPRForm st
     \<Longrightarrow> isClaimedByCurrentUser props st \<Longrightarrow> \<not> hasSubmittedPR st
     \<Longrightarrow> reach claim_ok extend_ok props initialIssue (st\<lparr>showPRForm := False\<rparr>, calls)"
| change_days:
    "reach claim_ok extend_ok props initialIssue (st, calls) \<Longrightarrow> showExtendModal st
     \<Longrightarrow> reach claim_ok extend_ok props initialIssue
           (extensionDays_onChange target_value st, calls)"
| change_justification:
    "reach claim_ok extend_ok props initialIssue (st, calls) \<Longrightarrow> showExtendModal st
     \<Longrightarrow> reach claim_ok extend_ok props initialIssue (st\<lparr>justification := target_value\<rparr>, calls)"
| extend:
    "reach claim_ok extend_ok props initialIssue (st, calls) \<Longrightarrow> showExtendModal st
     \<Longrightarrow> \<not> extend_button_disabled st
     \<Longrightarrow> reach claim_ok extend_ok props initialIssue
           (fst (handleExtend_clicked props st), Extend_pending (issue st) # calls)"
| extend_settled:
    "reach claim_ok extend_ok props initialIssue (st, calls) \<Longrightarrow> Extend_pending i \<in> set calls
     \<Longrightarrow> admitted (extend_ok i) outcome
     \<Longrightarrow> reach claim_ok extend_ok props initialIssue
           (handleExtend_settled i outcome st, remove1 (Extend_pending i) calls)"
| cancel_extend:
    "reach claim_ok extend_ok props initialIssue (st, calls) \<Longrightarrow> showExtendModal st
     \<Longrightarrow> \<not> isLoading st
     \<Longrightarrow> reach claim_ok extend_ok props initialIssue
           (st\<lparr>showExtendModal := False, justification := [], error := None\<rparr>, calls)"
| close_celebration:
    "reach claim_ok extend_ok props initialIssue (st, calls) \<Longrightarrow> celebrationResult st \<noteq> None
     \<Longrightarrow> reach claim_ok extend_ok props initialIssue (st\<lparr>celebrationResult := None\<rparr>, calls)"

text \<open>The states the component reaches, whatever the API answers.\<close>

definition reachable :: "Props \<Rightarrow> Issue \<Rightarrow> State \<Rightarrow> bool" where
  "reachable props initialIssue st \<longleftrightarrow>
     (\<exists>calls. reach (\<lambda>_. True) (\<lambda>_ _. True) props initialIssue (st, calls))"



text \<open>
  Modelled from the spec: what the interface of the claim operations promises of a
  successful answer (lib/issues-api and the service behind it are not under src/). A
  successful claim returns \<open>claim_expires_at\<close>; an extend fails with NotClaimed or
  NotOwner on an issue without a holder, so it succeeds only on an issue that has one.
\<close>

definition claim_returns_expiry :: "ClaimResult \<Rightarrow> bool" where
  "claim_returns_expiry result \<longleftrightarrow> truthy (result_claim_expires_at result)"

definition extend_needs_holder :: "Issue \<Rightarrow> ExtensionResult \<Rightarrow> bool" where
  "extend_needs_holder issue_at_click result \<longleftrightarrow> claimed_by issue_at_click \<noteq> None"

section \<open>The response object of the extend call\<close>

text \<open>
  The result of \<open>extendClaimDeadline\<close> is the parsed JSON body of the response, and
  the interface \<open>ExtensionResult\<close> names the properties the client reads from it:
  \<open>result.success\<close> and \<open>result.new_expiration\<close> in \<open>handleExtend\<close>. The values
  are the scalar ones the interface uses. A missing property reads as \<open>undefined\<close>,
  which is falsy; a value of another type than the interface gives the property is
  outside the interface and is read like a missing one.
\<close>

datatype json = JNull | JBool bool | JNum int | JStr js_string

type_synonym json_object = "string \<rightharpoonup> json"

definition ExtensionResult_of :: "json_object \<Rightarrow> ExtensionResult" where
  "ExtensionResult_of obj =
     \<lparr>success = (case obj ''success'' of Some (JBool b) \<Rightarrow> b | _ \<Rightarrow> False),
      message = (case obj ''message'' of Some (JStr s) \<Rightarrow> s | _ \<Rightarrow> []),
      issue_id = (case obj ''issue_id'' of Some (JNum n) \<Rightarrow> Some n | _ \<Rightarrow> None),
      new_expiration = (case obj ''new_expiration'' of Some (JStr s) \<Rightarrow> Some s | _ \<Rightarrow> None)\<rparr>"

section \<open>The component CountdownTimer\<close>

record TimerState =
  timeRemaining :: js_string
  isExpired :: bool

definition initial_timer :: TimerState where
  "initial_timer = \<lparr>timeRemaining = [], isExpired = False\<rparr>"

text \<open>The decimal digits of a natural number, most significant first.\<close>

function digits_of :: "nat \<Rightarrow> js_string" where
  "digits_of n = (if n < 10 then [0x30 + of_nat n] else digits_of (n div 10) @ [0x30 + of_nat (n mod 10)])"
  by pat_completeness auto
termination
  by (relation "measure id") auto

declare digits_of.simps [simp del]

text \<open>
  A template literal \<open>${n}\<close> for an integer \<open>n\<close> (below 10^21, where the engine
  switches to exponent notation; a count of days, hours or minutes is far below).
\<close>

definition number_to_string :: "int \<Rightarrow> js_string" where
  "number_to_string n = (if n < 0 then 0x2D # digits_of (nat (- n)) else digits_of (nat n))"

text \<open>
  The three components computed from \<open>diff\<close>. \<open>Math.floor(a / b)\<close> and \<open>a % b\<close> are
  taken on a positive \<open>diff\<close> only, where they are \<open>div\<close> and \<open>mod\<close>; the time values
  are integers below 2^53, on which the engine's arithmetic is exact.
\<close>

definition days_of :: "int \<Rightarrow> int" where
  "days_of diff = diff div (1000 * 60 * 60 * 24)"

definition hours_of :: "int \<Rightarrow> int" where
  "hours_of diff = (diff mod (1000 * 60 * 60 * 24)) div (1000 * 60 * 60)"

definition minutes_of :: "int \<Rightarrow> int" where
  "minutes_of diff = (diff mod (1000 * 60 * 60)) div (1000 * 60)"

text \<open>
  \<open>calculateTimeRemaining\<close>. \<open>now\<close> is \<open>new Date().getTime()\<close> and \<open>expiry\<close> is
  \<open>new Date(expiresAt).getTime()\<close>, which is \<open>NaN\<close> (\<open>None\<close>) when \<open>expiresAt\<close> is not
  a date: then \<open>diff\<close> is \<open>NaN\<close>, every comparison is false and the last branch
  renders \<open>NaNm\<close>.
\<close>

definition calculateTimeRemaining :: "int \<Rightarrow> int option \<Rightarrow> TimerState \<Rightarrow> TimerState" where
  "calculateTimeRemaining now expiry st =
     (case expiry of
        None \<Rightarrow> st\<lparr>timeRemaining := js_lit ''NaNm''\<rparr>
      | Some e \<Rightarrow>
          let diff = e - now in
          if diff \<le> 0 then st\<lparr>isExpired := True, timeRemaining := js_lit ''Expired''\<rparr>
          else
            let days = days_of diff; hours = hours_of diff; minutes = minutes_of diff in
            if days > 0 then
              st\<lparr>timeRemaining :=
                   number_to_string days @ js_lit ''d '' @ number_to_string hours @ js_lit ''h''\<rparr>
            else if hours > 0 then
              st\<lparr>timeRemaining :=
                   number_to_string hours @ js_lit ''h '' @ number_to_string minutes @ js_lit ''m''\<rparr>
            else st\<lparr>timeRemaining := number_to_string minutes @ js_lit ''m''\<rparr>)"

text \<open>The code units a rendered countdown is made of: digits, space, \<open>d\<close>, \<open>h\<close> and \<open>m\<close>.\<close>

definition countdown_units :: "code_unit set" where
  "countdown_units = {u. 0x30 \<le> u \<and> u \<le> 0x39} \<union> {0x20, 0x64, 0x68, 0x6D}"

section \<open>Test fixtures (PRSubmissionForm.test.tsx)\<close>

definition mockIssue :: Issue where
  "mockIssue =
     \<lparr>id' = 1, github_issue_id = 123, repository_id = 1,
      title = js_lit ''Fix bug in authentication'',
      description = Some (js_lit ''The login form is not validating email addresses correctly''),
      labels = [js_lit ''bug'', js_lit ''good first issue''],
      programming_language = Some (js_lit ''JavaScript''),
      difficulty_level = Some (js_lit ''easy''),
      ai_explanation = None,
      status = available, claimed_by = None, claimed_at = None, claim_expires_at = None,
      github_url = js_lit ''https://github.com/test/repo/issues/123'',
      created_at = js_lit ''2024-01-01T00:00:00Z'',
      updated_at = js_lit ''2024-01-01T00:00:00Z'',
      repository_name = Some (js_lit ''test-repo''),
      repository_full_name = Some (js_lit ''test/test-repo'')\<rparr>"

definition claimedIssue :: Issue where
  "claimedIssue =
     mockIssue\<lparr>status := claimed, claimed_by := Some 1,
               claimed_at := Some (js_lit ''2024-01-01T00:00:00Z''),
               claim_expires_at := Some (js_lit ''2024-01-08T00:00:00Z'')\<rparr>"

definition mockProps :: Props where
  "mockProps = \<lparr>accessToken = js_lit ''test-token'', currentUserId = 1\<rparr>"

definition mockClaimResult :: ClaimResult where
  "mockClaimResult =
     \<lparr>success = True, message = js_lit ''Issue claimed successfully'', issue_id = Some 1,
      result_claimed_at = Some (js_lit ''2024-01-01T00:00:00Z''),
      result_claim_expires_at = Some (js_lit ''2024-01-08T00:00:00Z'')\<rparr>"

definition mockReleaseResult :: ReleaseResult where
  "mockReleaseResult =
     \<lparr>success = True, message = js_lit ''Issue released successfully'', issue_id = Some 1\<rparr>"

definition mockExtensionResult :: ExtensionResult where
  "mockExtensionResult =
     \<lparr>success = True, message = js_lit ''Deadline extended'', issue_id = Some 1,
      new_expiration = Some (js_lit ''2024-01-15T00:00:00Z'')\<rparr>"

text \<open>The state of the extend test once the modal is open and the justification typed.\<close>

definition extendState :: State where
  "extendState =
     (initial_state claimedIssue)
       \<lparr>showExtendModal := True,
        justification := js_lit ''I need more time to complete the work''\<rparr>"

definition mockResult :: SubmissionResult where
  "mockResult =
     \<lparr>submission_success = True, submission_message = js_lit ''PR submitted successfully'',
      contribution_id = Some 1, pr_number = Some 123,
      submission_status = Some (js_lit ''submitted''), points_earned = Some 10\<rparr>"

text \<open>The same response as \<open>mockExtensionResult\<close>, as the object the API hands over.\<close>

definition mockExtensionResponse :: json_object where
  "mockExtensionResponse =
     [''success'' \<mapsto> JBool True,
      ''message'' \<mapsto> JStr (js_lit ''Deadline extended''),
      ''issue_id'' \<mapsto> JNum 1,
      ''new_expiration'' \<mapsto> JStr (js_lit ''2024-01-15T00:00:00Z'')]"

section \<open>Example runs of the component\<close>

text \<open>A response that names the new expiry \<open>new_expires_at\<close>.\<close>

definition specShapedResponse :: json_object where
  "specShapedResponse =
     [''success'' \<mapsto> JBool True,
      ''message'' \<mapsto> JStr (js_lit ''Deadline extended''),
      ''issue_id'' \<mapsto> JNum 1,
      ''new_expires_at'' \<mapsto> JStr (js_lit ''2024-01-15T00:00:00Z'')]"

text \<open>The user types 15 into the extension-days field of the open modal.\<close>

definition days15State :: State where
  "days15State = extensionDays_onChange (js_lit ''15'') extendState"

text \<open>Solve It on the available issue, answered with \<open>mockClaimResult\<close>.\<close>

definition claimedState :: State where
  "claimedState =
     fst (handleClaim (\<lambda>_ _ _. Resolved mockClaimResult) (js_lit ''2024-01-01T00:00:05Z'')
            mockProps (initial_state mockIssue))"


text \<open>
  After \<open>claimedState\<close>, another run: Submit Pull Request shows the form and the form is
  submitted; while that call is pending, Extend Deadline opens the modal, the user
  types a justification and presses Extend. Then the pull request is reported as
  successful, and after that the extend call is answered with \<open>mockExtensionResult\<close>.
\<close>

definition extendClickedState :: State where
  "extendClickedState =
     fst (handleExtend_clicked mockProps
            (claimedState
               \<lparr>showPRForm := \<not> showPRForm claimedState\<rparr>
               \<lparr>showExtendModal := True\<rparr>
               \<lparr>justification := js_lit ''I need more time to complete the work''\<rparr>))"

definition prDoneState :: State where
  "prDoneState = handlePRSuccess (issue claimedState) mockResult extendClickedState"

definition lateExtendState :: State where
  "lateExtendState =
     handleExtend_settled (issue claimedState) (Resolved mockExtensionResult) prDoneState"

section \<open>The extend operation behind the API\<close>

text \<open>
  Modelled from the spec: the extend operation that \<open>extendClaimDeadline\<close> calls
  (lib/issues-api and the service behind it are not under src/). It fails with
  InvalidDuration for days outside 1 to 14, with InvalidJustification for a
  justification of fewer than 10 characters, with NotClaimed when the stored issue is
  not claimed and with NotOwner when another user holds it; otherwise the new expiry is
  the current expiry plus the requested days. \<open>plus_days\<close>, the sum of a timestamp and
  a number of days, is a parameter.
\<close>

datatype extend_error = NotClaimed | NotOwner | InvalidDuration | InvalidJustification

definition spec_extend ::
  "(js_string \<Rightarrow> int \<Rightarrow> js_string) \<Rightarrow> Issue \<Rightarrow> int \<Rightarrow> int \<Rightarrow> js_string \<Rightarrow> extend_error + js_string" where
  "spec_extend plus_days stored user_id days reason =
     (if days < 1 \<or> 14 < days then Inl InvalidDuration
      else if length reason < 10 then Inl InvalidJustification
      else if status stored \<noteq> claimed then Inl NotClaimed
      else if claimed_by stored \<noteq> Some user_id then Inl NotOwner
      else
        (case claim_expires_at stored of
           None \<Rightarrow> Inl NotClaimed
         | Some expires \<Rightarrow> Inr (plus_days expires days)))"

text \<open>
  Modelled from the spec: how the outcome reaches the client. \<open>deliver\<close> says how an
  error kind is delivered; a delivered error is a rejection or a result without
  success. A success is a result with \<open>success\<close> and the new expiry.
\<close>

definition failure_reply :: "ExtensionResult settled \<Rightarrow> bool" where
  "failure_reply outcome = (case outcome of Resolved result \<Rightarrow> \<not> success result | Rejected err \<Rightarrow> True)"

definition extendClaimDeadline_spec ::
  "(extend_error \<Rightarrow> ExtensionResult settled) \<Rightarrow> (js_string \<Rightarrow> int \<Rightarrow> js_string) \<Rightarrow> Issue
     \<Rightarrow> int \<Rightarrow> int \<Rightarrow> int \<Rightarrow> js_string \<Rightarrow> js_string \<Rightarrow> ExtensionResult settled" where
  "extendClaimDeadline_spec deliver plus_days stored an_id user_id days reason token =
     (case spec_extend plus_days stored user_id days reason of
        Inl e \<Rightarrow> deliver e
      | Inr expires \<Rightarrow>
          Resolved \<lparr>success = True, message = js_lit ''Deadline extended'',
                    issue_id = Some an_id, new_expiration = Some expires\<rparr>)"

text \<open>
  Stand-ins for the two parameters in the examples: the sum of a timestamp and a number
  of days is written down as text, and every error is delivered as a rejection.
\<close>

definition mock_plus_days :: "js_string \<Rightarrow> int \<Rightarrow> js_string" where
  "mock_plus_days expires days = expires @ js_lit ''+'' @ number_to_string days @ js_lit ''d''"

definition mock_deliver :: "extend_error \<Rightarrow> ExtensionResult settled" where
  "mock_deliver e = Rejected (ErrorObject (js_lit ''Request failed''))"

section \<open>Claiming an issue\<close>

text \<open>
  C4. For every issue (so for every available one), a claim that the API reports as
  successful sets the status to claimed and \<open>claimed_by\<close> to the current user; the
  \<open>claimed_at\<close> and \<open>claim_expires_at\<close> that the result carries become the issue's claim
  timestamps, and no other field of the issue changes.
\<close>

theorem claim_success:
  assumes "claimIssue (id' (issue st)) (currentUserId props) (accessToken props) = Resolved result"
    and "success result"
  shows "status (issue (fst (handleClaim claimIssue nowISO props st))) = claimed \<and>
         claimed_by (issue (fst (handleClaim claimIssue nowISO props st))) = Some (currentUserId props) \<and>
         (\<forall>t. result_claimed_at result = Some t \<and> t \<noteq> [] \<longrightarrow>
            claimed_at (issue (fst (handleClaim claimIssue nowISO props st))) = Some t) \<and>
         (\<forall>t. result_claim_expires_at result = Some t \<and> t \<noteq> [] \<longrightarrow>
            claim_expires_at (issue (fst (handleClaim claimIssue nowISO props st))) = Some t) \<and>
         issue (fst (handleClaim claimIssue nowISO props st)) =
           (issue st)
             \<lparr>status := claimed, claimed_by := Some (currentUserId props),
              claimed_at := claimed_at (issue (fst (handleClaim claimIssue nowISO props st))),
              claim_expires_at :=
                claim_expires_at (issue (fst (handleClaim claimIssue nowISO props st)))\<rparr>"
  using assms by (simp add: handleClaim_def handleClaim_clicked_def handleClaim_settled_def Let_def or_else_def truthy_def)

theorem claim_success_witness:
  "status mockIssue = available \<and>
   issue (fst (handleClaim (\<lambda>_ _ _. Resolved mockClaimResult) (js_lit ''2024-01-01T00:00:05Z'')
                 mockProps (initial_state mockIssue))) = claimedIssue"
proof -
  let ?api = "\<lambda>_ _ _. Resolved mockClaimResult :: ClaimResult settled"
  let ?issue' = "issue (fst (handleClaim ?api (js_lit ''2024-01-01T00:00:05Z'') mockProps
                               (initial_state mockIssue)))"
  have ok: "success mockClaimResult"
    by (simp add: mockClaimResult_def)
  have stamps:
    "result_claimed_at mockClaimResult = Some (js_lit ''2024-01-01T00:00:00Z'') \<and>
     js_lit ''2024-01-01T00:00:00Z'' \<noteq> []"
    "result_claim_expires_at mockClaimResult = Some (js_lit ''2024-01-08T00:00:00Z'') \<and>
     js_lit ''2024-01-08T00:00:00Z'' \<noteq> []"
    by (simp_all add: mockClaimResult_def js_lit_def)
  from claim_success [where claimIssue = ?api and st = "initial_state mockIssue"
         and props = mockProps and result = mockClaimResult
         and nowISO = "js_lit ''2024-01-01T00:00:05Z''", OF refl ok]
    stamps
  have "?issue' = (issue (initial_state mockIssue))
          \<lparr>status := claimed, claimed_by := Some (currentUserId mockProps),
           claimed_at := claimed_at ?issue', claim_expires_at := claim_expires_at ?issue'\<rparr>"
    and "claimed_at ?issue' = Some (js_lit ''2024-01-01T00:00:00Z'')"
    and "claim_expires_at ?issue' = Some (js_lit ''2024-01-08T00:00:00Z'')"
    by blast+
  then have "?issue' = claimedIssue"
    by (simp add: claimedIssue_def initial_state_def mockProps_def)
  moreover have "status mockIssue = available"
    by (simp add: mockIssue_def)
  ultimately show ?thesis by simp
qed

section \<open>Releasing an issue\<close>

text \<open>
  C5. For every issue (so for every claimed one) and every user, a release that the user
  confirms and the API reports as successful sets the status to available and clears
  \<open>claimed_by\<close>, \<open>claimed_at\<close> and \<open>claim_expires_at\<close>; every other field of the issue
  is kept.
\<close>

theorem release_clears_claim:
  assumes "releaseIssue (id' (issue st)) (currentUserId props) (accessToken props) = Resolved result"
    and "success result"
  shows "issue (fst (handleRelease True releaseIssue props st)) =
           (issue st)\<lparr>status := available, claimed_by := None, claimed_at := None,
                       claim_expires_at := None\<rparr>"
  using assms by (simp add: handleRelease_def handleRelease_clicked_def handleRelease_settled_def Let_def)

theorem release_clears_claim_witness:
  "status claimedIssue = claimed \<and> claimed_by claimedIssue = Some (currentUserId mockProps) \<and>
   issue (fst (handleRelease True (\<lambda>_ _ _. Resolved mockReleaseResult) mockProps
                 (initial_state claimedIssue))) = mockIssue"
  using release_clears_claim [of "\<lambda>_ _ _. Resolved mockReleaseResult" "initial_state claimedIssue"
          mockProps mockReleaseResult]
  by (simp add: mockReleaseResult_def claimedIssue_def mockIssue_def mockProps_def initial_state_def)

section \<open>Extending the deadline\<close>

text \<open>
  C1. An extend request whose justification has fewer than 10 code units is rejected
  as a whole: the handler sets the error to the justification message, makes no API call
  and leaves the rest of the state, so \<open>claim_expires_at\<close>, as it was (and the Extend
  button of the modal is disabled). With 10 code units or more the handler goes on and
  calls the API once, with the issue id, the user, the requested days, the justification
  and the token.
\<close>

theorem extend_justification_check:
  "(length (justification st) < 10 \<longrightarrow>
      extend_button_disabled st \<and>
      fst (handleExtend extendClaimDeadline props st) = st\<lparr>error := Some justification_error\<rparr> \<and>
      snd (handleExtend extendClaimDeadline props st) = [] \<and>
      claim_expires_at (issue (fst (handleExtend extendClaimDeadline props st))) =
        claim_expires_at (issue st)) \<and>
   (10 \<le> length (justification st) \<longrightarrow>
      extend_button_disabled st = isLoading st \<and>
      snd (handleExtend extendClaimDeadline props st) =
        [Call_extendClaimDeadline (id' (issue st)) (currentUserId props) (extensionDays st)
           (justification st) (accessToken props)])"
  by (simp add: handleExtend_def handleExtend_clicked_def handleExtend_settled_def extend_button_disabled_def Let_def)

theorem extend_justification_check_witness:
  "length (js_lit ''need time'') = 9 \<and>
   handleExtend (\<lambda>_ _ _ _ _. Resolved mockExtensionResult) mockProps
       (extendState\<lparr>justification := js_lit ''need time''\<rparr>) =
     (extendState\<lparr>justification := js_lit ''need time'', error := Some justification_error\<rparr>, []) \<and>
   length (js_lit ''need time!'') = 10 \<and>
   snd (handleExtend (\<lambda>_ _ _ _ _. Resolved mockExtensionResult) mockProps
          (extendState\<lparr>justification := js_lit ''need time!''\<rparr>)) =
     [Call_extendClaimDeadline 1 1 7 (js_lit ''need time!'') (js_lit ''test-token'')]"
  using extend_justification_check [of "extendState\<lparr>justification := js_lit ''need time''\<rparr>"
          "\<lambda>_ _ _ _ _. Resolved mockExtensionResult" mockProps]
        extend_justification_check [of "extendState\<lparr>justification := js_lit ''need time!''\<rparr>"
          "\<lambda>_ _ _ _ _. Resolved mockExtensionResult" mockProps]
  by (simp add: extendState_def initial_state_def claimedIssue_def mockIssue_def mockProps_def
        js_lit_def prod_eq_iff)

subsection \<open>The requested days\<close>

lemma parseInt_samples:
  "parseInt (js_lit ''-5'') = Some (- 5)" "parseInt (js_lit ''0'') = Some 0"
  "parseInt (js_lit []) = None" "parseInt (js_lit ''15'') = Some 15"
  by (simp_all add: parseInt_def js_lit_def is_white_space_def digit_value_def)

lemma days15State_eq: "days15State = extendState\<lparr>extensionDays := 15\<rparr>"
  by (simp add: days15State_def extensionDays_onChange_def parseInt_samples or_one_def)

text \<open>
  C2. Settled against the extend operation as the spec describes it, with the client's
  handler in front of it. For every extend request that the handler passes on (a
  justification of 10 code units or more) with days outside 1 to 14, so for 0 and for
  15, the operation returns InvalidDuration; the handler, which passes the days on
  unchecked, leaves the issue and so \<open>claim_expires_at\<close> unchanged, also when other
  events happened before the answer. A request with days from 1 to 14, so with 1 and
  with 14, by the holder of a claimed issue is accepted: the operation returns the
  current expiry plus the days, the handler sets no error and stores the new expiry.
\<close>

theorem extend_days_validated:
  assumes "10 \<le> length (justification st)"
    and "\<forall>e. failure_reply (deliver e)"
  shows "(extensionDays st < 1 \<or> 14 < extensionDays st \<longrightarrow>
            spec_extend plus_days stored (currentUserId props) (extensionDays st) (justification st) =
              Inl InvalidDuration \<and>
            issue (fst (handleExtend (extendClaimDeadline_spec deliver plus_days stored) props st)) =
              issue st \<and>
            (\<forall>issue_at_click later.
                issue (handleExtend_settled issue_at_click
                         (extendClaimDeadline_spec deliver plus_days stored (id' (issue st))
                            (currentUserId props) (extensionDays st) (justification st)
                            (accessToken props)) later) = issue later)) \<and>
         (1 \<le> extensionDays st \<and> extensionDays st \<le> 14 \<and> status stored = claimed \<and>
          claimed_by stored = Some (currentUserId props) \<longrightarrow>
            (\<forall>expires. claim_expires_at stored = Some expires \<and>
                plus_days expires (extensionDays st) \<noteq> [] \<longrightarrow>
                spec_extend plus_days stored (currentUserId props) (extensionDays st)
                  (justification st) = Inr (plus_days expires (extensionDays st)) \<and>
                error (fst (handleExtend (extendClaimDeadline_spec deliver plus_days stored) props st)) =
                  None \<and>
                claim_expires_at
                  (issue (fst (handleExtend (extendClaimDeadline_spec deliver plus_days stored) props st))) =
                  Some (plus_days expires (extensionDays st))))"
proof (intro conjI impI allI)
  assume out: "extensionDays st < 1 \<or> 14 < extensionDays st"
  then show invalid: "spec_extend plus_days stored (currentUserId props) (extensionDays st)
      (justification st) = Inl InvalidDuration"
    by (auto simp: spec_extend_def)
  have reply: "extendClaimDeadline_spec deliver plus_days stored (id' (issue st))
      (currentUserId props) (extensionDays st) (justification st) (accessToken props) =
      deliver InvalidDuration"
    by (simp add: extendClaimDeadline_spec_def invalid)
  have unchanged: "issue (handleExtend_settled i (deliver InvalidDuration) s) = issue s" for i s
    using assms(2) [rule_format, of InvalidDuration]
    by (cases "deliver InvalidDuration") (simp_all add: handleExtend_settled_def failure_reply_def)
  show "issue (fst (handleExtend (extendClaimDeadline_spec deliver plus_days stored) props st)) =
      issue st"
    using assms(1) by (simp add: handleExtend_def handleExtend_clicked_def reply unchanged)
  fix issue_at_click later
  show "issue (handleExtend_settled issue_at_click
                 (extendClaimDeadline_spec deliver plus_days stored (id' (issue st))
                    (currentUserId props) (extensionDays st) (justification st)
                    (accessToken props)) later) = issue later"
    by (simp add: reply unchanged)
next
  fix expires
  assume ok: "1 \<le> extensionDays st \<and> extensionDays st \<le> 14 \<and> status stored = claimed \<and>
      claimed_by stored = Some (currentUserId props)"
    and new: "claim_expires_at stored = Some expires \<and> plus_days expires (extensionDays st) \<noteq> []"
  with assms(1) show accepted: "spec_extend plus_days stored (currentUserId props) (extensionDays st)
      (justification st) = Inr (plus_days expires (extensionDays st))"
    by (simp add: spec_extend_def)
  have reply: "extendClaimDeadline_spec deliver plus_days stored (id' (issue st))
      (currentUserId props) (extensionDays st) (justification st) (accessToken props) =
      Resolved \<lparr>success = True, message = js_lit ''Deadline extended'',
                issue_id = Some (id' (issue st)),
                new_expiration = Some (plus_days expires (extensionDays st))\<rparr>"
    by (simp add: extendClaimDeadline_spec_def accepted)
  show "error (fst (handleExtend (extendClaimDeadline_spec deliver plus_days stored) props st)) = None"
    using assms(1)
    by (simp add: handleExtend_def handleExtend_clicked_def handleExtend_settled_def reply)
  show "claim_expires_at
      (issue (fst (handleExtend (extendClaimDeadline_spec deliver plus_days stored) props st))) =
      Some (plus_days expires (extensionDays st))"
    using assms(1) new
    by (simp add: handleExtend_def handleExtend_clicked_def handleExtend_settled_def reply
          or_else_def truthy_def)
qed

theorem extend_days_validated_witness:
  "spec_extend mock_plus_days claimedIssue 1 15 (justification days15State) = Inl InvalidDuration \<and>
   issue (fst (handleExtend (extendClaimDeadline_spec mock_deliver mock_plus_days claimedIssue)
                 mockProps days15State)) = claimedIssue \<and>
   issue (fst (handleExtend (extendClaimDeadline_spec mock_deliver mock_plus_days claimedIssue)
                 mockProps (extendState\<lparr>extensionDays := 0\<rparr>))) = claimedIssue \<and>
   claim_expires_at
     (issue (fst (handleExtend (extendClaimDeadline_spec mock_deliver mock_plus_days claimedIssue)
                    mockProps (extendState\<lparr>extensionDays := 1\<rparr>)))) =
     Some (mock_plus_days (js_lit ''2024-01-08T00:00:00Z'') 1) \<and>
   claim_expires_at
     (issue (fst (handleExtend (extendClaimDeadline_spec mock_deliver mock_plus_days claimedIssue)
                    mockProps (extendState\<lparr>extensionDays := 14\<rparr>)))) =
     Some (mock_plus_days (js_lit ''2024-01-08T00:00:00Z'') 14)"
proof -
  note validated = extend_days_validated [where deliver = mock_deliver
      and plus_days = mock_plus_days and stored = claimedIssue and props = mockProps]
  have fails: "\<forall>e. failure_reply (mock_deliver e)"
    by (simp add: failure_reply_def mock_deliver_def)
  have long: "10 \<le> length (justification (extendState\<lparr>extensionDays := d\<rparr>))" for d
    by (simp add: extendState_def js_lit_def)
  have held: "status claimedIssue = claimed \<and> claimed_by claimedIssue = Some (currentUserId mockProps)"
    "claim_expires_at claimedIssue = Some (js_lit ''2024-01-08T00:00:00Z'')"
    by (simp_all add: claimedIssue_def mockProps_def)
  have written: "mock_plus_days expires d \<noteq> []" for expires d
    by (simp add: mock_plus_days_def js_lit_def)
  have shown: "issue (extendState\<lparr>extensionDays := d\<rparr>) = claimedIssue"
    "extensionDays (extendState\<lparr>extensionDays := d\<rparr>) = d"
    "currentUserId mockProps = 1" for d
    by (simp_all add: extendState_def initial_state_def mockProps_def)
  from validated [OF long [of 15] fails]
  have fifteen:
    "spec_extend mock_plus_days claimedIssue 1 15 (justification days15State) = Inl InvalidDuration"
    "issue (fst (handleExtend (extendClaimDeadline_spec mock_deliver mock_plus_days claimedIssue)
                   mockProps days15State)) = claimedIssue"
    by (simp_all add: days15State_eq shown)
  from validated [OF long [of 0] fails]
  have zero:
    "issue (fst (handleExtend (extendClaimDeadline_spec mock_deliver mock_plus_days claimedIssue)
                   mockProps (extendState\<lparr>extensionDays := 0\<rparr>))) = claimedIssue"
    by (simp add: shown)
  from validated [OF long [of 1] fails] held written
  have one:
    "claim_expires_at
       (issue (fst (handleExtend (extendClaimDeadline_spec mock_deliver mock_plus_days claimedIssue)
                      mockProps (extendState\<lparr>extensionDays := 1\<rparr>)))) =
       Some (mock_plus_days (js_lit ''2024-01-08T00:00:00Z'') 1)"
    by (simp add: shown)
  from validated [OF long [of 14] fails] held written
  have fourteen:
    "claim_expires_at
       (issue (fst (handleExtend (extendClaimDeadline_spec mock_deliver mock_plus_days claimedIssue)
                      mockProps (extendState\<lparr>extensionDays := 14\<rparr>)))) =
       Some (mock_plus_days (js_lit ''2024-01-08T00:00:00Z'') 14)"
    by (simp add: shown)
  from fifteen zero one fourteen show ?thesis
    by blast
qed

subsection \<open>The name of the new expiry in the response\<close>

text \<open>
  C7 as stated does not hold: a successful response that delivers the new expiry under
  the name \<open>new_expires_at\<close> leaves \<open>claim_expires_at\<close> at its old value, 8 January.
\<close>

theorem new_expires_at_counterexample:
  "specShapedResponse ''success'' = Some (JBool True) \<and>
   specShapedResponse ''new_expires_at'' = Some (JStr (js_lit ''2024-01-15T00:00:00Z'')) \<and>
   claim_expires_at (issue extendState) = Some (js_lit ''2024-01-08T00:00:00Z'') \<and>
   claim_expires_at (issue (fst (handleExtend
       (\<lambda>_ _ _ _ _. Resolved (ExtensionResult_of specShapedResponse)) mockProps extendState))) =
     Some (js_lit ''2024-01-08T00:00:00Z'')"
  by (simp add: specShapedResponse_def ExtensionResult_of_def extendState_def initial_state_def
        handleExtend_def handleExtend_clicked_def handleExtend_settled_def Let_def or_else_def truthy_def claimedIssue_def js_lit_def)

text \<open>
  C7, amended. A successful extend delivers the new expiry in the property
  \<open>new_expiration\<close> of its result: the handler stores a non-empty \<open>new_expiration\<close> as
  the issue's \<open>claim_expires_at\<close>, keeps the old value when the response has no
  \<open>new_expiration\<close>, and a property \<open>new_expires_at\<close> is not read at all.
\<close>

theorem extend_reads_new_expiration:
  assumes "10 \<le> length (justification st)"
    and "extendClaimDeadline (id' (issue st)) (currentUserId props) (extensionDays st)
           (justification st) (accessToken props) = Resolved (ExtensionResult_of response)"
    and "response ''success'' = Some (JBool True)"
  shows "(\<forall>e. response ''new_expiration'' = Some (JStr e) \<and> e \<noteq> [] \<longrightarrow>
            claim_expires_at (issue (fst (handleExtend extendClaimDeadline props st))) = Some e) \<and>
         (response ''new_expiration'' = None \<longrightarrow>
            claim_expires_at (issue (fst (handleExtend extendClaimDeadline props st))) =
              claim_expires_at (issue st)) \<and>
         ExtensionResult_of (response(''new_expires_at'' := v)) = ExtensionResult_of response"
  using assms
  by (simp add: handleExtend_def handleExtend_clicked_def handleExtend_settled_def Let_def or_else_def truthy_def ExtensionResult_of_def)

theorem extend_reads_new_expiration_witness:
  "claim_expires_at (issue (fst (handleExtend
       (\<lambda>_ _ _ _ _. Resolved (ExtensionResult_of mockExtensionResponse)) mockProps extendState))) =
     Some (js_lit ''2024-01-15T00:00:00Z'')"
proof -
  let ?api = "\<lambda>_ _ _ _ _. Resolved (ExtensionResult_of mockExtensionResponse) :: ExtensionResult settled"
  have long: "10 \<le> length (justification extendState)"
    by (simp add: extendState_def js_lit_def)
  have ok: "mockExtensionResponse ''success'' = Some (JBool True)"
    by (simp add: mockExtensionResponse_def)
  have new: "mockExtensionResponse ''new_expiration'' = Some (JStr (js_lit ''2024-01-15T00:00:00Z'')) \<and>
             js_lit ''2024-01-15T00:00:00Z'' \<noteq> []"
    by (simp add: mockExtensionResponse_def js_lit_def)
  from extend_reads_new_expiration [where extendClaimDeadline = ?api and st = extendState
         and props = mockProps and response = mockExtensionResponse, OF long refl ok] new
  show ?thesis by blast
qed

section \<open>The claim fields over the runs of the component\<close>

lemma claimedState_eq:
  "claimedState = (initial_state mockIssue)\<lparr>issue := claimedIssue\<rparr>"
  by (simp add: claimedState_def handleClaim_def handleClaim_clicked_def handleClaim_settled_def
        Let_def mockClaimResult_def or_else_def truthy_def
        initial_state_def claimedIssue_def mockProps_def js_lit_def)

lemma claimedState_fields:
  "issue claimedState = claimedIssue" "\<not> isLoading claimedState" "\<not> hasSubmittedPR claimedState"
  "\<not> showPRForm claimedState" "isClaimedByCurrentUser mockProps claimedState"
  by (simp_all add: claimedState_eq initial_state_def isClaimedByCurrentUser_def claimedIssue_def
        mockProps_def mockIssue_def)

lemma reach_claimedState:
  "reach claim_returns_expiry extend_needs_holder mockProps mockIssue (claimedState, [])"
proof -
  let ?reach = "reach claim_returns_expiry extend_needs_holder mockProps mockIssue"
  let ?clicked = "fst (handleClaim_clicked mockProps (initial_state mockIssue))"
  have "?reach (?clicked, [Claim_pending (issue (initial_state mockIssue))])"
    by (rule reach.solve_it [OF reach.mount]) (simp_all add: initial_state_def mockIssue_def)
  then have "?reach (?clicked, [Claim_pending mockIssue])"
    by (simp add: initial_state_def)
  then have "?reach
      (fst (handleClaim_settled (js_lit ''2024-01-01T00:00:05Z'') mockProps mockIssue
              (Resolved mockClaimResult) ?clicked),
       remove1 (Claim_pending mockIssue) [Claim_pending mockIssue])"
    by (rule reach.claim_settled)
      (simp_all add: admitted_def claim_returns_expiry_def mockClaimResult_def truthy_def
         js_lit_def)
  moreover have "fst (handleClaim_settled (js_lit ''2024-01-01T00:00:05Z'') mockProps mockIssue
              (Resolved mockClaimResult) ?clicked) = claimedState"
    by (simp add: claimedState_def handleClaim_def Let_def split_def initial_state_def)
  ultimately show ?thesis by simp
qed












subsection \<open>An extend that is answered late\<close>

lemma reach_prDoneState:
  "reach claim_returns_expiry extend_needs_holder mockProps mockIssue
     (prDoneState, [Extend_pending (issue claimedState)])"
proof -
  let ?reach = "reach claim_returns_expiry extend_needs_holder mockProps mockIssue"
  let ?form = "claimedState\<lparr>showPRForm := \<not> showPRForm claimedState\<rparr>"
  let ?modal = "?form\<lparr>showExtendModal := True\<rparr>"
  let ?typed = "?modal\<lparr>justification := js_lit ''I need more time to complete the work''\<rparr>"
  have owner: "isClaimedByCurrentUser mockProps s" if "issue s = issue claimedState" for s
    using that claimedState_fields(5) by (simp add: isClaimedByCurrentUser_def)
  have "?reach (?form, [])"
    by (rule reach.toggle_pr_form [OF reach_claimedState]) (simp_all add: claimedState_fields)
  then have "?reach (?form, [PR_pending (issue ?form)])"
    by (rule reach.pr_submit) (simp_all add: owner claimedState_fields)
  then have "?reach (?modal, [PR_pending (issue ?form)])"
    by (rule reach.extend_deadline) (simp_all add: owner claimedState_fields)
  then have "?reach (?typed, [PR_pending (issue ?form)])"
    by (rule reach.change_justification) simp
  then have "?reach (fst (handleExtend_clicked mockProps ?typed),
      [Extend_pending (issue ?typed), PR_pending (issue ?form)])"
    by (rule reach.extend)
      (simp_all add: extend_button_disabled_def claimedState_fields js_lit_def)
  then have "?reach (extendClickedState,
      [Extend_pending (issue claimedState), PR_pending (issue claimedState)])"
    by (simp add: extendClickedState_def)
  then have "?reach (handlePRSuccess (issue claimedState) mockResult extendClickedState,
      remove1 (PR_pending (issue claimedState))
        [Extend_pending (issue claimedState), PR_pending (issue claimedState)])"
    by (rule reach.pr_success) (simp_all add: mockResult_def)
  then show ?thesis
    by (simp add: prDoneState_def)
qed

text \<open>
  C6 at the run of \<open>lateExtendState\<close>: the pull request is reported as successful while
  the extend call is pending, so the status is completed when the extend is answered.
  The handler then writes the issue as it was at the click with the new expiry, and
  the status is claimed again: the successful extend has changed the status as well.
\<close>

theorem late_extend_reverts_status:
  "reach claim_returns_expiry extend_needs_holder mockProps mockIssue
     (prDoneState, [Extend_pending (issue claimedState)]) \<and>
   issue prDoneState = claimedIssue\<lparr>status := completed\<rparr> \<and>
   reach claim_returns_expiry extend_needs_holder mockProps mockIssue (lateExtendState, []) \<and>
   issue lateExtendState = claimedIssue\<lparr>claim_expires_at := Some (js_lit ''2024-01-15T00:00:00Z'')\<rparr> \<and>
   status (issue prDoneState) = completed \<and>
   status (issue lateExtendState) = claimed"
proof -
  let ?reach = "reach claim_returns_expiry extend_needs_holder mockProps mockIssue"
  have before: "issue prDoneState = claimedIssue\<lparr>status := completed\<rparr>"
    by (simp add: prDoneState_def handlePRSuccess_def claimedState_fields)
  have after: "issue lateExtendState =
      claimedIssue\<lparr>claim_expires_at := Some (js_lit ''2024-01-15T00:00:00Z'')\<rparr>"
    by (simp add: lateExtendState_def handleExtend_settled_def mockExtensionResult_def
          or_else_def truthy_def claimedState_fields js_lit_def)
  have "?reach (handleExtend_settled (issue claimedState) (Resolved mockExtensionResult) prDoneState,
      remove1 (Extend_pending (issue claimedState)) [Extend_pending (issue claimedState)])"
    by (rule reach.extend_settled [OF reach_prDoneState])
      (simp_all add: admitted_def extend_needs_holder_def claimedState_fields claimedIssue_def)
  then have "?reach (lateExtendState, [])"
    by (simp add: lateExtendState_def)
  with reach_prDoneState before after show ?thesis
    by (simp add: claimedIssue_def)
qed

section \<open>The extension-days field\<close>

lemma or_one_nonzero: "or_one n \<noteq> 0"
  by (simp add: or_one_def split: option.split)

lemma reach_days_nonzero:
  "reach claim_ok extend_ok props initialIssue cfg \<Longrightarrow> extensionDays (fst cfg) \<noteq> 0"
  by (induction rule: reach.induct)
    (simp_all add: initial_state_def handleClaim_clicked_def handleClaim_settled_def
       handleRelease_clicked_def handleRelease_settled_def handleExtend_clicked_def
       handleExtend_settled_def handlePRSuccess_def extensionDays_onChange_def or_one_nonzero
       split: settled.split)

lemma reachable_days_nonzero:
  "reachable props initialIssue st \<Longrightarrow> extensionDays st \<noteq> 0"
  using reach_days_nonzero [where cfg = "(st, calls)" for calls]
  by (auto simp: reachable_def)

lemma handleExtend_calls:
  "e \<in> set (snd (handleExtend extendClaimDeadline props st)) \<Longrightarrow>
   e = Call_extendClaimDeadline (id' (issue st)) (currentUserId props) (extensionDays st)
         (justification st) (accessToken props)"
  by (simp add: handleExtend_def handleExtend_clicked_def Let_def split: if_splits)

lemma reachable_extendState: "reachable mockProps claimedIssue extendState"
proof -
  let ?reach = "reach (\<lambda>_. True) (\<lambda>_ _. True) mockProps claimedIssue"
  have "?reach ((initial_state claimedIssue)\<lparr>showExtendModal := True\<rparr>, [])"
    by (rule reach.extend_deadline [OF reach.mount])
      (simp_all add: isClaimedByCurrentUser_def initial_state_def claimedIssue_def mockProps_def)
  then have "?reach
      ((initial_state claimedIssue)\<lparr>showExtendModal := True\<rparr>
         \<lparr>justification := js_lit ''I need more time to complete the work''\<rparr>, [])"
    by (rule reach.change_justification) simp
  then have "?reach (extendState, [])"
    by (simp add: extendState_def)
  then show ?thesis
    unfolding reachable_def by blast
qed

text \<open>
  C9 as stated does not hold: the value is not always positive. Typing \<open>-5\<close> makes the
  requested days \<open>-5\<close>, and the extend request goes out with it.
\<close>

theorem extension_days_negative_counterexample:
  "extensionDays (extensionDays_onChange (js_lit ''-5'') extendState) = - 5 \<and>
   \<not> 0 < extensionDays (extensionDays_onChange (js_lit ''-5'') extendState) \<and>
   snd (handleExtend (\<lambda>_ _ _ _ _. Resolved mockExtensionResult) mockProps
          (extensionDays_onChange (js_lit ''-5'') extendState)) =
     [Call_extendClaimDeadline 1 1 (- 5) (js_lit ''I need more time to complete the work'')
        (js_lit ''test-token'')]"
proof -
  have typed: "extensionDays_onChange (js_lit ''-5'') extendState = extendState\<lparr>extensionDays := - 5\<rparr>"
    by (simp add: extensionDays_onChange_def parseInt_samples or_one_def)
  show ?thesis
    unfolding typed
    by (simp add: handleExtend_def handleExtend_clicked_def handleExtend_settled_def Let_def extendState_def initial_state_def claimedIssue_def
          mockIssue_def mockProps_def js_lit_def)
qed

text \<open>
  C9, amended. The extension-days field never produces 0: for every input string, when
  its integer parse is 0 or not a number the requested days become 1, and every other
  parse (negative, or above 14) is kept as it is. So the requested days are never 0 in
  any state the component reaches, and no extend request with \<open>days = 0\<close> is sent.
\<close>

theorem extension_days_never_zero:
  "extensionDays (extensionDays_onChange target_value st) \<noteq> 0 \<and>
   (parseInt target_value = None \<or> parseInt target_value = Some 0 \<longrightarrow>
      extensionDays (extensionDays_onChange target_value st) = 1) \<and>
   (\<forall>n. parseInt target_value = Some n \<and> n \<noteq> 0 \<longrightarrow>
      extensionDays (extensionDays_onChange target_value st) = n) \<and>
   (reachable props initialIssue st \<longrightarrow>
      extensionDays st \<noteq> 0 \<and>
      (\<forall>i u days j t.
         Call_extendClaimDeadline i u days j t \<in> set (snd (handleExtend extendClaimDeadline props st))
         \<longrightarrow> days \<noteq> 0))"
proof (intro conjI impI allI)
  show "extensionDays (extensionDays_onChange target_value st) \<noteq> 0"
    by (simp add: extensionDays_onChange_def or_one_nonzero)
next
  assume "parseInt target_value = None \<or> parseInt target_value = Some 0"
  then show "extensionDays (extensionDays_onChange target_value st) = 1"
    by (auto simp: extensionDays_onChange_def or_one_def)
next
  fix n
  assume "parseInt target_value = Some n \<and> n \<noteq> 0"
  then show "extensionDays (extensionDays_onChange target_value st) = n"
    by (simp add: extensionDays_onChange_def or_one_def)
next
  assume "reachable props initialIssue st"
  then show "extensionDays st \<noteq> 0"
    by (rule reachable_days_nonzero)
next
  fix i u days j t
  assume r: "reachable props initialIssue st"
    and c: "Call_extendClaimDeadline i u days j t \<in> set (snd (handleExtend extendClaimDeadline props st))"
  from handleExtend_calls [OF c] have "days = extensionDays st" by simp
  with reachable_days_nonzero [OF r] show "days \<noteq> 0" by simp
qed

theorem extension_days_never_zero_witness:
  "extensionDays (extensionDays_onChange (js_lit ''0'') extendState) = 1 \<and>
   extensionDays (extensionDays_onChange (js_lit []) extendState) = 1 \<and>
   extensionDays (extensionDays_onChange (js_lit ''15'') extendState) = 15 \<and>
   reachable mockProps claimedIssue extendState \<and>
   extensionDays extendState \<noteq> 0"
proof -
  note t = extension_days_never_zero [where st = extendState and props = mockProps
      and initialIssue = claimedIssue
      and extendClaimDeadline = "\<lambda>_ _ _ _ _. Resolved mockExtensionResult"]
  from t [where target_value = "js_lit ''0''"]
  have zero: "extensionDays (extensionDays_onChange (js_lit ''0'') extendState) = 1"
    by (simp add: parseInt_samples)
  from t [where target_value = "js_lit []"]
  have empty: "extensionDays (extensionDays_onChange (js_lit []) extendState) = 1"
    by (simp add: parseInt_samples)
  from t [where target_value = "js_lit ''15''"]
  have fifteen: "extensionDays (extensionDays_onChange (js_lit ''15'') extendState) = 15"
    by (simp add: parseInt_samples)
  from t [where target_value = "js_lit ''15''"] reachable_extendState
  have "extensionDays extendState \<noteq> 0"
    by blast
  with zero empty fifteen reachable_extendState show ?thesis
    by blast
qed

section \<open>The countdown\<close>

lemma digit_unit:
  assumes "k < 10"
  shows "(0x30 :: code_unit) \<le> 0x30 + of_nat k \<and> (0x30 + of_nat k :: code_unit) \<le> 0x39"
proof -
  from assms have "k \<in> {0, 1, 2, 3, 4, 5, 6, 7, 8, 9}" by auto
  then show ?thesis by auto
qed

lemma digits_of_units: "set (digits_of n) \<subseteq> {u. 0x30 \<le> u \<and> u \<le> 0x39}"
proof (induction n rule: digits_of.induct)
  case (1 n)
  show ?case
  proof (cases "n < 10")
    case True
    then show ?thesis
      using digit_unit [of n] by (subst digits_of.simps) simp
  next
    case False
    moreover have "n mod 10 < 10" by simp
    ultimately show ?thesis
      using "1.IH" digit_unit [of "n mod 10"] by (subst digits_of.simps) auto
  qed
qed

lemma number_to_string_units:
  "0 \<le> n \<Longrightarrow> set (number_to_string n) \<subseteq> countdown_units"
  using digits_of_units [of "nat n"] by (auto simp: number_to_string_def countdown_units_def)

lemma js_lit_units:
  "set (js_lit ''d '') \<subseteq> countdown_units" "set (js_lit ''h '') \<subseteq> countdown_units"
  "set (js_lit ''h'') \<subseteq> countdown_units" "set (js_lit ''m'') \<subseteq> countdown_units"
  by (simp_all add: js_lit_def countdown_units_def)

lemma components_bounds:
  assumes "0 < diff"
  shows "0 \<le> days_of diff" "0 \<le> hours_of diff" "hours_of diff < 24"
    "0 \<le> minutes_of diff" "minutes_of diff < 60"
proof -
  show "0 \<le> days_of diff"
    using assms by (simp add: days_of_def pos_imp_zdiv_nonneg_iff)
  have "0 \<le> diff mod 86400000" "diff mod 86400000 < 86400000"
    by simp_all
  then show "0 \<le> hours_of diff" "hours_of diff < 24"
    unfolding hours_of_def by simp_all
  have "0 \<le> diff mod 3600000" "diff mod 3600000 < 3600000"
    by simp_all
  then show "0 \<le> minutes_of diff" "minutes_of diff < 60"
    unfolding minutes_of_def by simp_all
qed

text \<open>
  C10. For every expiry time value and every current time, the countdown is defined and
  has no negative part. When the expiry is not strictly in the future, the timer shows
  \<open>Expired\<close> and is in the expired state. Otherwise the days are at least 0, the hours
  are from 0 to 23 and the minutes from 0 to 59; the text is \<open>${days}d ${hours}h\<close>,
  \<open>${hours}h ${minutes}m\<close> or \<open>${minutes}m\<close> built from them, it consists of digits,
  the space and the letters d, h and m only (so no minus sign), and the expired flag
  is left as it was.
\<close>

theorem countdown_total_nonnegative:
  "(e \<le> now \<longrightarrow>
      calculateTimeRemaining now (Some e) st =
        st\<lparr>isExpired := True, timeRemaining := js_lit ''Expired''\<rparr>) \<and>
   (now < e \<longrightarrow>
      0 \<le> days_of (e - now) \<and>
      0 \<le> hours_of (e - now) \<and> hours_of (e - now) < 24 \<and>
      0 \<le> minutes_of (e - now) \<and> minutes_of (e - now) < 60 \<and>
      timeRemaining (calculateTimeRemaining now (Some e) st) =
        (if 0 < days_of (e - now) then
           number_to_string (days_of (e - now)) @ js_lit ''d '' @
           number_to_string (hours_of (e - now)) @ js_lit ''h''
         else if 0 < hours_of (e - now) then
           number_to_string (hours_of (e - now)) @ js_lit ''h '' @
           number_to_string (minutes_of (e - now)) @ js_lit ''m''
         else number_to_string (minutes_of (e - now)) @ js_lit ''m'') \<and>
      set (timeRemaining (calculateTimeRemaining now (Some e) st)) \<subseteq> countdown_units \<and>
      isExpired (calculateTimeRemaining now (Some e) st) = isExpired st)"
proof (intro conjI impI)
  assume "e \<le> now"
  then show "calculateTimeRemaining now (Some e) st =
      st\<lparr>isExpired := True, timeRemaining := js_lit ''Expired''\<rparr>"
    by (simp add: calculateTimeRemaining_def)
next
  assume future: "now < e"
  then have pos: "0 < e - now" by simp
  note b = components_bounds [OF pos]
  show "0 \<le> days_of (e - now)" "0 \<le> hours_of (e - now)" "hours_of (e - now) < 24"
    "0 \<le> minutes_of (e - now)" "minutes_of (e - now) < 60"
    by (rule b)+
  show rendered: "timeRemaining (calculateTimeRemaining now (Some e) st) =
        (if 0 < days_of (e - now) then
           number_to_string (days_of (e - now)) @ js_lit ''d '' @
           number_to_string (hours_of (e - now)) @ js_lit ''h''
         else if 0 < hours_of (e - now) then
           number_to_string (hours_of (e - now)) @ js_lit ''h '' @
           number_to_string (minutes_of (e - now)) @ js_lit ''m''
         else number_to_string (minutes_of (e - now)) @ js_lit ''m'')"
    using future by (simp add: calculateTimeRemaining_def Let_def)
  show "set (timeRemaining (calculateTimeRemaining now (Some e) st)) \<subseteq> countdown_units"
    unfolding rendered
    using number_to_string_units [OF b(1)] number_to_string_units [OF b(2)]
      number_to_string_units [OF b(4)] js_lit_units
    by simp
  show "isExpired (calculateTimeRemaining now (Some e) st) = isExpired st"
    using future by (simp add: calculateTimeRemaining_def Let_def)
qed

theorem countdown_total_nonnegative_witness:
  "calculateTimeRemaining 1704067200000 (Some 1704067199000) initial_timer =
     \<lparr>timeRemaining = js_lit ''Expired'', isExpired = True\<rparr> \<and>
   timeRemaining (calculateTimeRemaining 1704067200000 (Some 1704250800000) initial_timer) =
     js_lit ''2d 3h''"
  using countdown_total_nonnegative [of 1704067199000 1704067200000 initial_timer]
    countdown_total_nonnegative [of 1704250800000 1704067200000 initial_timer]
  by (simp add: initial_timer_def days_of_def hours_of_def number_to_string_def
        digits_of.simps js_lit_def)

end
